theory Spec2Isabelle
  imports Main
begin

section \<open>Data model of the ingest server (cmd/server/main.go)\<close>

text \<open>
  Wall-clock instants are natural numbers of milliseconds; the zero value of Go's
  \<open>time.Time\<close> is the instant 0. Bytes are \<open>char\<close>s, so a Go string or byte slice is
  a \<open>string\<close>. Go's \<open>int\<close> counters are modelled as \<open>int\<close>: they only ever count rows
  of one upload, and an upload is at most \<open>maxUploadBytes\<close> long, far below the
  64-bit range.
\<close>

type_synonym time = nat
type_synonym addr = nat

definition maxUploadBytes :: int where
  "maxUploadBytes = 2 ^ 30"

record Model =
  ID :: string
  Name :: string
  Schema :: string

record RejectedRow =
  RowJobID :: string
  RowNumber :: int
  RawData :: string
  Error :: string
  Timestamp :: time

datatype JobState =
  StatePending | StateRunning | StateSuccess | StatePartialSuccess | StateFailed | StateCancelled

record Totals_t =
  Rows :: int
  OK :: int
  Errors :: int

record Timings_t =
  WaitingMS :: int
  ProcessingMS :: int

record JobStatus =
  JobID :: string
  ModelID :: string
  State :: JobState
  Totals :: Totals_t
  Timings :: Timings_t
  UpdatedAt :: time
  StartedAt :: time
  Cancelled :: bool

text \<open>
  A payload names the value that was given to \<open>json.Marshal\<close>: a row of the upload
  (a \<open>[]string\<close>) or a \<open>RejectedRow\<close>. It stands for the encoding of that value;
  the bytes of the encoding, in which \<open>json.Marshal\<close> replaces invalid UTF-8 by
  U+FFFD, are not modelled.
\<close>

datatype payload = RowJSON "string list" | RejectedJSON RejectedRow

record Message =
  Key :: string
  Value :: payload

record TopicConfig =
  Topic :: string
  NumPartitions :: int
  ReplicationFactor :: int
  ConfigEntries :: "(string \<times> string) list"

text \<open>An uploaded file (\<open>multipart.File\<close>): its bytes and the read position.\<close>

record mfile =
  data :: string
  pos :: nat

text \<open>
  The process state. \<open>models\<close> and \<open>jobs\<close> are the two global registries; \<open>jobs\<close> holds
  pointers (\<open>*JobStatus\<close>), so the records themselves live in \<open>heap\<close>, and the
  background task and the handlers reach the same record through its address.
  \<open>goroutines\<close> lists the background tasks started by \<open>go processJob(js, file, fileType)\<close>.
  \<open>topics\<close> and \<open>logs\<close> are the broker: the topics created and the messages
  written to each topic, oldest first. \<open>clock\<close> is what \<open>time.Now()\<close> returns.
\<close>

record world =
  models :: "string \<rightharpoonup> Model"
  jobs :: "string \<rightharpoonup> addr"
  heap :: "addr \<Rightarrow> JobStatus"
  next_addr :: addr
  goroutines :: "(addr \<times> mfile \<times> string) list"
  topics :: "string \<rightharpoonup> TopicConfig"
  logs :: "string \<Rightarrow> Message list"
  clock :: time

text \<open>An HTTP response: the status code and the JSON body given to \<open>writeJSON\<close>.\<close>

datatype body = ErrorBody string string | JobIDBody string | JobBody JobStatus

type_synonym response = "nat \<times> body"

definition badRequest :: "string \<Rightarrow> string \<Rightarrow> response" where
  "badRequest code msg = (400, ErrorBody code msg)"

definition notFound :: "string \<Rightarrow> string \<Rightarrow> response" where
  "notFound code msg = (404, ErrorBody code msg)"

definition internalError :: "string \<Rightarrow> response" where
  "internalError err = (500, ErrorBody ''INTERNAL_ERROR'' err)"

definition modify_job :: "addr \<Rightarrow> (JobStatus \<Rightarrow> JobStatus) \<Rightarrow> world \<Rightarrow> world" where
  "modify_job p f w = w\<lparr>heap := (heap w)(p := f (heap w p))\<rparr>"

section \<open>Library calls used by the handlers\<close>

text \<open>
  \<open>io.ReadFull(file, buf)\<close> with \<open>len(buf) = n\<close>: fills the buffer from the read
  position and advances it, or fails with \<open>EOF\<close> (nothing left) or
  \<open>unexpected EOF\<close> (fewer than \<open>n\<close> bytes left).
\<close>

definition io_ReadFull :: "mfile \<Rightarrow> nat \<Rightarrow> string + (string \<times> mfile)" where
  "io_ReadFull f n =
     (let rest = drop (pos f) (data f)
      in if n \<le> length rest then Inr (take n rest, f\<lparr>pos := pos f + n\<rparr>)
         else Inl (if rest = [] then ''EOF'' else ''unexpected EOF''))"

text \<open>\<open>file.Seek(0, io.SeekStart)\<close>; whether the call fails is the environment's.\<close>

definition file_Seek_start :: "string option \<Rightarrow> mfile \<Rightarrow> string + mfile" where
  "file_Seek_start err f = (case err of Some e \<Rightarrow> Inl e | None \<Rightarrow> Inr (f\<lparr>pos := 0\<rparr>))"

text \<open>
  \<open>filepath.Ext\<close>: the suffix starting at the last dot of the last path element, empty
  when that element has no dot. The scan runs from the end of the path.
\<close>

fun Ext_scan :: "string \<Rightarrow> string \<Rightarrow> string" where
  "Ext_scan [] suffix = []"
| "Ext_scan (c # cs) suffix =
     (if c = CHR ''/'' then []
      else if c = CHR ''.'' then c # suffix
      else Ext_scan cs (c # suffix))"

definition filepath_Ext :: "string \<Rightarrow> string" where
  "filepath_Ext path = Ext_scan (rev path) []"

fun strings_Contains :: "string \<Rightarrow> string \<Rightarrow> bool" where
  "strings_Contains [] substr = (substr = [])"
| "strings_Contains (c # cs) substr =
     (take (length substr) (c # cs) = substr \<or> strings_Contains cs substr)"

fun strings_Join :: "string list \<Rightarrow> string \<Rightarrow> string" where
  "strings_Join [] sep = []"
| "strings_Join [x] sep = x"
| "strings_Join (x # y # ys) sep = x @ sep @ strings_Join (y # ys) sep"

text \<open>
  \<open>json.Marshal\<close> of a \<open>[]string\<close> and of a \<open>RejectedRow\<close> (strings, an int and a
  current time) has no failing input, so the error branches of the callers are kept
  but never taken. The result is the payload that stands for the encoding of the
  argument, not its bytes.
\<close>

definition json_Marshal_row :: "string list \<Rightarrow> string + payload" where
  "json_Marshal_row rec = Inr (RowJSON rec)"

definition json_Marshal_rejected :: "RejectedRow \<Rightarrow> string + payload" where
  "json_Marshal_rejected rr = Inr (RejectedJSON rr)"

section \<open>createJob\<close>

text \<open>
  The parts of the request the handler looks at: the result of
  \<open>r.ParseMultipartForm\<close>, \<open>r.FormValue("model_id")\<close> (empty when the field is
  absent), \<open>r.FormFile("file")\<close> (an error, or the file name and the bytes), whether
  the seek fails, and the identifier \<open>randomID()\<close> draws.
\<close>

record upload_request =
  multipart_err :: "string option"
  form_model_id :: string
  form_file :: "string + (string \<times> string)"
  seek_err :: "string option"
  random_id :: string

text \<open>
  Lines 202 to 221: read four bytes, seek back to the start, choose the file type.
  The result is the response of a rejected upload, or the file type and the rewound file.
\<close>

definition sniff :: "string \<Rightarrow> string option \<Rightarrow> mfile \<Rightarrow> response + (string \<times> mfile)" where
  "sniff filename seek_error file =
     (case io_ReadFull file 4 of
        Inl err \<Rightarrow> Inl (badRequest ''READ_ERROR'' err)
      | Inr (buf, file1) \<Rightarrow>
          (case file_Seek_start seek_error file1 of
             Inl err \<Rightarrow> Inl (internalError err)
           | Inr file2 \<Rightarrow>
               if buf = ''PAR1'' then Inr (''parquet'', file2)
               else if strings_Contains (filepath_Ext filename) ''.csv'' \<or> buf ! 0 \<noteq> CHR 0x50
               then Inr (''csv'', file2)
               else Inl (badRequest ''UNSUPPORTED_FILE_TYPE''
                           ''only .csv or .parquet files are allowed'')))"

definition createJob :: "upload_request \<Rightarrow> world \<Rightarrow> response \<times> world" where
  "createJob r w =
     (case multipart_err r of
        Some err \<Rightarrow> (badRequest ''INVALID_MULTIPART'' err, w)
      | None \<Rightarrow>
          let modelID = form_model_id r in
          if modelID = [] then (badRequest ''MISSING_MODEL_ID'' ''model_id is required'', w)
          else if models w modelID = None
          then (badRequest ''MODEL_NOT_FOUND'' ''model not found'', w)
          else
            (case form_file r of
               Inl err \<Rightarrow> (badRequest ''MISSING_FILE'' err, w)
             | Inr (filename, content) \<Rightarrow>
                 if int (length content) > maxUploadBytes
                 then (badRequest ''FILE_TOO_LARGE'' ''file exceeds 1GiB limit'', w)
                 else
                   (case sniff filename (seek_err r) \<lparr>data = content, pos = 0\<rparr> of
                      Inl resp \<Rightarrow> (resp, w)
                    | Inr (fileType, file) \<Rightarrow>
                        let jobID = random_id r;
                            js = next_addr w;
                            w1 = w\<lparr>heap := (heap w)(js :=
                                      \<lparr>JobID = jobID, ModelID = modelID, State = StatePending,
                                       Totals = \<lparr>Rows = 0, OK = 0, Errors = 0\<rparr>,
                                       Timings = \<lparr>WaitingMS = 0, ProcessingMS = 0\<rparr>,
                                       UpdatedAt = clock w, StartedAt = 0,
                                       Cancelled = False\<rparr>),
                                    next_addr := Suc (next_addr w)\<rparr>;
                            w2 = w1\<lparr>jobs := (jobs w1)(jobID \<mapsto> js)\<rparr>;
                            w3 = w2\<lparr>goroutines := goroutines w2 @ [(js, file, fileType)]\<rparr>
                        in ((202, JobIDBody jobID), w3))))"

section \<open>cancelJob\<close>

definition cancelJob :: "string \<Rightarrow> world \<Rightarrow> response \<times> world" where
  "cancelJob jid w =
     (case jobs w jid of
        Some j \<Rightarrow>
          let w1 = modify_job j (\<lambda>js. js\<lparr>State := StateCancelled\<rparr>) w;
              w2 = modify_job j (\<lambda>js. js\<lparr>Cancelled := True\<rparr>) w1;
              w3 = modify_job j (\<lambda>js. js\<lparr>UpdatedAt := clock w2\<rparr>) w2
          in ((202, JobBody (heap w3 j)), w3)
      | None \<Rightarrow> (notFound ''JOB_NOT_FOUND'' ''job not found'', w))"

section \<open>processJob\<close>

text \<open>
  What the broker and the reader do is the environment's. Time passes only while the
  task waits in a call to them, and each wait is given in milliseconds.
  \<open>rl.Read()\<close> returns a record, or an error with or without a partial record; the
  reader of a finite upload returns finitely many of these and then \<open>io.EOF\<close>.
  The results of the reader are taken as given (\<open>csv_rows\<close>), not computed from the
  bytes of the file. What the task prints with \<open>log.Printf\<close> is left out.
\<close>

datatype read_result = ReadErr "string list option" string | ReadOk "string list"

record row_io =
  read_ms :: nat
  read_res :: read_result
  write_ms :: nat
  write_err :: "string option"
  dlq_ms :: nat
  dlq_err :: "string option"

record task_io =
  dial_ms :: nat
  dial_err :: "string option"
  create_ms :: nat
  create_err :: "string option"
  csv_rows :: "row_io list"
  eof_ms :: nat

definition wait :: "nat \<Rightarrow> world \<Rightarrow> world" where
  "wait ms w = w\<lparr>clock := clock w + ms\<rparr>"

text \<open>\<open>WriteMessages\<close> on the writer of a topic, when the broker acknowledges.\<close>

definition WriteMessages :: "string \<Rightarrow> Message \<Rightarrow> world \<Rightarrow> world" where
  "WriteMessages topic msg w = w\<lparr>logs := (logs w)(topic := logs w topic @ [msg])\<rparr>"

definition topicConfig :: "string \<Rightarrow> TopicConfig" where
  "topicConfig name =
     \<lparr>Topic = name, NumPartitions = 1, ReplicationFactor = 1,
      ConfigEntries = [(''cleanup.policy'', ''delete''), (''retention.ms'', ''604800000'')]\<rparr>"

text \<open>
  \<open>conn.CreateTopics(mainTopicConfig, dlqTopicConfig)\<close>: a failure is logged and the
  task continues.
\<close>

definition CreateTopics :: "string \<Rightarrow> string \<Rightarrow> task_io \<Rightarrow> world \<Rightarrow> world" where
  "CreateTopics mainTopic dlqTopic io w =
     (let w1 = wait (create_ms io) w in
      case create_err io of
        Some err \<Rightarrow> w1
      | None \<Rightarrow> w1\<lparr>topics := (topics w1)(mainTopic \<mapsto> topicConfig mainTopic,
                                         dlqTopic \<mapsto> topicConfig dlqTopic)\<rparr>)"

text \<open>The closure \<open>sendToDLQ\<close> of processJob, for the row whose waits are \<open>r\<close>.\<close>

definition sendToDLQ ::
  "addr \<Rightarrow> string \<Rightarrow> row_io \<Rightarrow> int \<Rightarrow> string \<Rightarrow> string \<Rightarrow> world \<Rightarrow> world" where
  "sendToDLQ js dlqTopic r rowNum rawData errorMsg w =
     (let rejectedRow = \<lparr>RowJobID = JobID (heap w js), RowNumber = rowNum, RawData = rawData,
                         Error = errorMsg, Timestamp = clock w\<rparr>
      in case json_Marshal_rejected rejectedRow of
           Inl err \<Rightarrow> w
         | Inr payload \<Rightarrow>
             let msg = \<lparr>Key = JobID (heap w js), Value = payload\<rparr>;
                 w1 = wait (dlq_ms r) w
             in (case dlq_err r of
                   Some err \<Rightarrow> w1
                 | None \<Rightarrow> WriteMessages dlqTopic msg w1))"

definition inc_Errors :: "JobStatus \<Rightarrow> JobStatus" where
  "inc_Errors js = js\<lparr>Totals := (Totals js)\<lparr>Errors := Errors (Totals js) + 1\<rparr>\<rparr>"

definition inc_Rows :: "JobStatus \<Rightarrow> JobStatus" where
  "inc_Rows js = js\<lparr>Totals := (Totals js)\<lparr>Rows := Rows (Totals js) + 1\<rparr>\<rparr>"

definition inc_OK :: "JobStatus \<Rightarrow> JobStatus" where
  "inc_OK js = js\<lparr>Totals := (Totals js)\<lparr>OK := OK (Totals js) + 1\<rparr>\<rparr>"

text \<open>
  One pass through the body of the \<open>for\<close> loop (lines 339 to 379) in which
  \<open>rl.Read()\<close> did not return \<open>io.EOF\<close>; \<open>rowNumber\<close> is the value after
  \<open>rowNumber++\<close>.
\<close>

definition row_step :: "addr \<Rightarrow> string \<Rightarrow> string \<Rightarrow> int \<Rightarrow> row_io \<Rightarrow> world \<Rightarrow> world" where
  "row_step js mainTopic dlqTopic rowNumber r w0 =
     (let w = wait (read_ms r) w0 in
      case read_res r of
        ReadErr rec err \<Rightarrow>
          let w1 = modify_job js inc_Errors w;
              rawData = (case rec of None \<Rightarrow> [] | Some parts \<Rightarrow> strings_Join parts '','')
          in sendToDLQ js dlqTopic r rowNumber rawData err w1
      | ReadOk rec \<Rightarrow>
          let w1 = modify_job js inc_Rows w in
          (case json_Marshal_row rec of
             Inl err \<Rightarrow>
               sendToDLQ js dlqTopic r rowNumber (strings_Join rec '','')
                 (''JSON marshal error: '' @ err) (modify_job js inc_Errors w1)
           | Inr payload \<Rightarrow>
               let msg = \<lparr>Key = JobID (heap w1 js), Value = payload\<rparr>;
                   w2 = wait (write_ms r) w1
               in (case write_err r of
                     Some err \<Rightarrow>
                       sendToDLQ js dlqTopic r rowNumber (strings_Join rec '','')
                         (''Kafka write error: '' @ err) (modify_job js inc_Errors w2)
                   | None \<Rightarrow> modify_job js inc_OK (WriteMessages mainTopic msg w2))))"

text \<open>The loop, up to the read that returns \<open>io.EOF\<close>.\<close>

fun row_loop :: "addr \<Rightarrow> string \<Rightarrow> string \<Rightarrow> int \<Rightarrow> row_io list \<Rightarrow> world \<Rightarrow> world" where
  "row_loop js mainTopic dlqTopic rowNumber [] w = w"
| "row_loop js mainTopic dlqTopic rowNumber (r # rs) w =
     row_loop js mainTopic dlqTopic (rowNumber + 1) rs
       (row_step js mainTopic dlqTopic (rowNumber + 1) r w)"

text \<open>Lines 240 to 243.\<close>

definition processJob_begin :: "addr \<Rightarrow> world \<Rightarrow> world" where
  "processJob_begin js w =
     (let w1 = modify_job js (\<lambda>j. j\<lparr>State := StateRunning\<rparr>) w;
          w2 = modify_job js (\<lambda>j. j\<lparr>StartedAt := clock w1\<rparr>) w1
      in modify_job js (\<lambda>j. j\<lparr>UpdatedAt := clock w2\<rparr>) w2)"

text \<open>Lines 382 to 391: the processing time and the final state.\<close>

definition final_state :: "Totals_t \<Rightarrow> JobState" where
  "final_state t =
     (if Errors t > 0 \<and> OK t > 0 then StatePartialSuccess
      else if Errors t > 0 then StateFailed
      else StateSuccess)"

definition processJob_resolve :: "addr \<Rightarrow> time \<Rightarrow> world \<Rightarrow> world" where
  "processJob_resolve js start w =
     (let w1 = modify_job js
                 (\<lambda>j. j\<lparr>Timings := (Timings j)\<lparr>ProcessingMS := int (clock w - start)\<rparr>\<rparr>) w
      in modify_job js (\<lambda>j. j\<lparr>State := final_state (Totals j)\<rparr>) w1)"

text \<open>Lines 274 and 393: \<open>js.UpdatedAt = time.Now()\<close>.\<close>

definition touch :: "addr \<Rightarrow> world \<Rightarrow> world" where
  "touch js w = modify_job js (\<lambda>j. j\<lparr>UpdatedAt := clock w\<rparr>) w"

definition processJob :: "addr \<Rightarrow> task_io \<Rightarrow> world \<Rightarrow> world" where
  "processJob js io w0 =
     (let start = clock w0;
          w1 = processJob_begin js w0;
          mainTopic = ''batch_'' @ JobID (heap w1 js);
          dlqTopic = ''batch_'' @ JobID (heap w1 js) @ ''_dlq'';
          w2 = wait (dial_ms io) w1
      in case dial_err io of
           Some err \<Rightarrow> touch js (modify_job js (\<lambda>j. j\<lparr>State := StateFailed\<rparr>) w2)
         | None \<Rightarrow>
             let w3 = CreateTopics mainTopic dlqTopic io w2;
                 w4 = row_loop js mainTopic dlqTopic 0 (csv_rows io) w3;
                 w5 = wait (eof_ms io) w4
             in touch js (processJob_resolve js start w5))"

section \<open>External cancel requests interleaved with the task\<close>

text \<open>
  The handlers run concurrently with the background task. A schedule names the cancel
  requests (by job id) that are served at each point of the task: before its first
  statement, while it dials, before each pass of the loop (passes counted from 0),
  before the final state is resolved, and between the write of the final state and
  the write of \<open>UpdatedAt\<close> that follows it (lines 273/274 and 385 to 393).
  A request writes only \<open>State\<close>, \<open>Cancelled\<close> and \<open>UpdatedAt\<close> of one record, and a
  pass of the loop writes only the counters, so a request served in the middle of a
  pass has the effect of one served just before it.
\<close>

record schedule =
  at_begin :: "string list"
  at_dial :: "string list"
  at_row :: "nat \<Rightarrow> string list"
  at_eof :: "string list"
  at_stamp :: "string list"

definition cancels :: "string list \<Rightarrow> world \<Rightarrow> world" where
  "cancels ids w = fold (\<lambda>jid v. snd (cancelJob jid v)) ids w"

fun row_loop_i ::
  "(nat \<Rightarrow> string list) \<Rightarrow> nat \<Rightarrow> addr \<Rightarrow> string \<Rightarrow> string \<Rightarrow> int \<Rightarrow> row_io list \<Rightarrow> world \<Rightarrow> world"
  where
  "row_loop_i reqs i js mainTopic dlqTopic rowNumber [] w = w"
| "row_loop_i reqs i js mainTopic dlqTopic rowNumber (r # rs) w =
     row_loop_i reqs (Suc i) js mainTopic dlqTopic (rowNumber + 1) rs
       (row_step js mainTopic dlqTopic (rowNumber + 1) r (cancels (reqs i) w))"

definition processJob_i :: "schedule \<Rightarrow> addr \<Rightarrow> task_io \<Rightarrow> world \<Rightarrow> world" where
  "processJob_i sched js io w =
     (let w0 = cancels (at_begin sched) w;
          start = clock w0;
          w1 = processJob_begin js w0;
          mainTopic = ''batch_'' @ JobID (heap w1 js);
          dlqTopic = ''batch_'' @ JobID (heap w1 js) @ ''_dlq'';
          w2 = cancels (at_dial sched) (wait (dial_ms io) w1)
      in case dial_err io of
           Some err \<Rightarrow>
             touch js (cancels (at_stamp sched)
                         (modify_job js (\<lambda>j. j\<lparr>State := StateFailed\<rparr>) w2))
         | None \<Rightarrow>
             let w3 = CreateTopics mainTopic dlqTopic io w2;
                 w4 = row_loop_i (at_row sched) 0 js mainTopic dlqTopic 0 (csv_rows io) w3;
                 w5 = cancels (at_eof sched) (wait (eof_ms io) w4)
             in touch js (cancels (at_stamp sched) (processJob_resolve js start w5)))"

definition no_cancels :: schedule where
  "no_cancels = \<lparr>at_begin = [], at_dial = [], at_row = (\<lambda>i. []), at_eof = [], at_stamp = []\<rparr>"

text \<open>
  What the task can see of a job record and of the process state: everything but the
  three fields a cancel request writes.
\<close>

definition task_view :: "JobStatus \<Rightarrow> string \<times> string \<times> Totals_t \<times> Timings_t \<times> time" where
  "task_view j = (JobID j, ModelID j, Totals j, Timings j, StartedAt j)"

definition same_view :: "world \<Rightarrow> world \<Rightarrow> bool" where
  "same_view a b =
     (models a = models b \<and> jobs a = jobs b \<and> next_addr a = next_addr b
      \<and> goroutines a = goroutines b \<and> topics a = topics b \<and> logs a = logs b
      \<and> clock a = clock b \<and> (\<lambda>q. task_view (heap a q)) = (\<lambda>q. task_view (heap b q)))"

section \<open>Classifying the rows of an upload\<close>

definition parsed :: "row_io \<Rightarrow> bool" where
  "parsed r = (case read_res r of ReadOk rec \<Rightarrow> True | ReadErr rec err \<Rightarrow> False)"

definition published :: "row_io \<Rightarrow> bool" where
  "published r = (parsed r \<and> write_err r = None)"

definition row_record :: "row_io \<Rightarrow> string list" where
  "row_record r = (case read_res r of ReadOk rec \<Rightarrow> rec | ReadErr rec err \<Rightarrow> [])"

text \<open>The counters after one pass of the loop over the row \<open>r\<close>.\<close>

definition count_row :: "row_io \<Rightarrow> Totals_t \<Rightarrow> Totals_t" where
  "count_row r t =
     (if published r then t\<lparr>Rows := Rows t + 1, OK := OK t + 1\<rparr>
      else if parsed r then t\<lparr>Rows := Rows t + 1, Errors := Errors t + 1\<rparr>
      else t\<lparr>Errors := Errors t + 1\<rparr>)"

section \<open>A concrete server state and concrete inputs\<close>

definition blank_job :: JobStatus where
  "blank_job =
     \<lparr>JobID = [], ModelID = [], State = StatePending,
      Totals = \<lparr>Rows = 0, OK = 0, Errors = 0\<rparr>,
      Timings = \<lparr>WaitingMS = 0, ProcessingMS = 0\<rparr>,
      UpdatedAt = 0, StartedAt = 0, Cancelled = False\<rparr>"

text \<open>A server with one registered model and no job; free cells hold \<open>blank_job\<close>.\<close>

definition demo_world :: world where
  "demo_world =
     \<lparr>models = [''m1'' \<mapsto> \<lparr>ID = ''m1'', Name = ''demo'', Schema = ''{}''\<rparr>],
      jobs = Map.empty, heap = (\<lambda>q. blank_job), next_addr = 0, goroutines = [],
      topics = Map.empty, logs = (\<lambda>t. []), clock = 100\<rparr>"

definition demo_upload :: "string \<Rightarrow> string \<Rightarrow> string \<Rightarrow> upload_request" where
  "demo_upload model filename content =
     \<lparr>multipart_err = None, form_model_id = model, form_file = Inr (filename, content),
      seek_err = None, random_id = ''k3x9q2ab''\<rparr>"

text \<open>The server after it accepted the upload of a small csv file.\<close>

definition demo_accepted :: world where
  "demo_accepted = snd (createJob (demo_upload ''m1'' ''rows.csv'' ''a,b,c'') demo_world)"

definition good_row :: "string list \<Rightarrow> row_io" where
  "good_row rec = \<lparr>read_ms = 2, read_res = ReadOk rec, write_ms = 5, write_err = None,
                   dlq_ms = 0, dlq_err = None\<rparr>"

definition unpublished_row :: "string list \<Rightarrow> row_io" where
  "unpublished_row rec = \<lparr>read_ms = 2, read_res = ReadOk rec, write_ms = 10000,
                          write_err = Some ''context deadline exceeded'',
                          dlq_ms = 4, dlq_err = None\<rparr>"

definition bad_row :: row_io where
  "bad_row = \<lparr>read_ms = 2, read_res = ReadErr (Some [''x'', ''y'']) ''wrong number of fields'',
              write_ms = 0, write_err = None, dlq_ms = 4, dlq_err = None\<rparr>"

definition demo_io :: "string option \<Rightarrow> row_io list \<Rightarrow> task_io" where
  "demo_io dial rows = \<lparr>dial_ms = 3, dial_err = dial, create_ms = 6, create_err = None,
                         csv_rows = rows, eof_ms = 1\<rparr>"

text \<open>Cancel requests served while the task of the job above runs.\<close>

definition demo_cancels :: schedule where
  "demo_cancels = \<lparr>at_begin = [''k3x9q2ab''], at_dial = [],
                    at_row = (\<lambda>i. if i = 1 then [''k3x9q2ab'', ''zzzzzzzz''] else []),
                    at_eof = [''k3x9q2ab''], at_stamp = []\<rparr>"

section \<open>Facts about the concrete state\<close>

lemmas demo_defs =
  demo_world_def demo_upload_def demo_accepted_def createJob_def sniff_def io_ReadFull_def
  file_Seek_start_def maxUploadBytes_def filepath_Ext_def badRequest_def Let_def

lemma demo_accepted_jobs: "jobs demo_accepted ''k3x9q2ab'' = Some 0"
  by (simp add: demo_defs)

lemma demo_accepted_job:
  "heap demo_accepted 0 =
     \<lparr>JobID = ''k3x9q2ab'', ModelID = ''m1'', State = StatePending,
      Totals = \<lparr>Rows = 0, OK = 0, Errors = 0\<rparr>,
      Timings = \<lparr>WaitingMS = 0, ProcessingMS = 0\<rparr>,
      UpdatedAt = 100, StartedAt = 0, Cancelled = False\<rparr>"
  by (simp add: demo_defs)

lemma demo_accepted_broker:
  "logs demo_accepted = (\<lambda>t. [])" "topics demo_accepted = Map.empty" "clock demo_accepted = 100"
  by (simp_all add: demo_defs)

section \<open>cancelJob\<close>

text \<open>
  C7. A cancel request on a known job id sets the record's state to CANCELLED and its
  cancelled flag to true at once, whatever the record held, leaves every other field
  of it but \<open>UpdatedAt\<close> and every other record alone, and answers 202 with the
  record as it is after these writes. A cancel request on an unknown job id answers
  404 JOB_NOT_FOUND and changes nothing.
\<close>

theorem cancelJob_marks_cancelled:
  "(jobs w jid = Some p \<longrightarrow>
      (\<exists>w'. cancelJob jid w = ((202, JobBody (heap w' p)), w')
          \<and> State (heap w' p) = StateCancelled \<and> Cancelled (heap w' p)
          \<and> heap w' p = (heap w p)\<lparr>State := StateCancelled, Cancelled := True,
                                    UpdatedAt := clock w\<rparr>
          \<and> (\<forall>q. q \<noteq> p \<longrightarrow> heap w' q = heap w q)
          \<and> jobs w' = jobs w \<and> logs w' = logs w \<and> clock w' = clock w))
   \<and> (jobs w jid = None \<longrightarrow> cancelJob jid w = (notFound ''JOB_NOT_FOUND'' ''job not found'', w))"
  by (simp add: cancelJob_def modify_job_def Let_def)

theorem cancelJob_marks_cancelled_witness:
  "jobs demo_accepted ''k3x9q2ab'' = Some 0
   \<and> State (heap demo_accepted 0) = StatePending
   \<and> State (heap (snd (cancelJob ''k3x9q2ab'' demo_accepted)) 0) = StateCancelled
   \<and> Cancelled (heap (snd (cancelJob ''k3x9q2ab'' demo_accepted)) 0)
   \<and> fst (cancelJob ''k3x9q2ab'' demo_accepted)
       = (202, JobBody (heap (snd (cancelJob ''k3x9q2ab'' demo_accepted)) 0))
   \<and> jobs demo_accepted ''zzzzzzzz'' = None
   \<and> cancelJob ''zzzzzzzz'' demo_accepted
       = (notFound ''JOB_NOT_FOUND'' ''job not found'', demo_accepted)"
  using cancelJob_marks_cancelled [of demo_accepted "''k3x9q2ab''" 0]
    cancelJob_marks_cancelled [of demo_accepted "''zzzzzzzz''" 0]
    demo_accepted_jobs demo_accepted_job
  by (auto simp add: demo_defs)

section \<open>createJob\<close>

text \<open>
  C6. An upload whose model id is not in the model registry is answered with status
  400 and leaves the whole state as it was: the job store holds no new record, no
  background task is started, and the broker has no new topic.
\<close>

theorem createJob_unknown_model:
  "models w (form_model_id r) = None \<Longrightarrow>
     fst (fst (createJob r w)) = 400 \<and> snd (createJob r w) = w
     \<and> jobs (snd (createJob r w)) = jobs w
     \<and> goroutines (snd (createJob r w)) = goroutines w
     \<and> topics (snd (createJob r w)) = topics w
     \<and> (multipart_err r = None \<and> form_model_id r \<noteq> [] \<longrightarrow>
          fst (createJob r w) = badRequest ''MODEL_NOT_FOUND'' ''model not found'')"
  by (simp add: createJob_def badRequest_def Let_def split: option.splits)

theorem createJob_unknown_model_witness:
  "models demo_world ''nonexistent_model'' = None
   \<and> createJob (demo_upload ''nonexistent_model'' ''rows.csv'' ''a,b,c'') demo_world
       = (badRequest ''MODEL_NOT_FOUND'' ''model not found'', demo_world)"
  using createJob_unknown_model
    [of demo_world "demo_upload ''nonexistent_model'' ''rows.csv'' ''a,b,c''"]
  by (simp add: demo_world_def demo_upload_def prod_eq_iff)




text \<open>
  C5, as the claim states it, fails: a file that starts with the byte \<open>P\<close> but not with
  \<open>PAR1\<close>, uploaded under a name whose extension does not contain \<open>.csv\<close>, is not
  classified as csv; it is rejected with UNSUPPORTED_FILE_TYPE.
\<close>

theorem sniff_not_csv_counterexample:
  "take 4 ''PASS,1,2'' \<noteq> ''PAR1''
   \<and> createJob (demo_upload ''m1'' ''notes.txt'' ''PASS,1,2'') demo_world
       = (badRequest ''UNSUPPORTED_FILE_TYPE'' ''only .csv or .parquet files are allowed'',
          demo_world)"
  by (simp add: demo_defs)

text \<open>
  C5, amended. On a file of at least 4 bytes whose seek succeeds, the sniff reads
  exactly the first 4 bytes and hands the file on with its position back at 0. The
  file is parquet exactly when those bytes are \<open>PAR1\<close>; otherwise it is csv when
  the extension of the file name contains \<open>.csv\<close> or the first byte is not \<open>P\<close>
  (0x50), and is rejected with UNSUPPORTED_FILE_TYPE in the remaining case.
\<close>

theorem sniff_classification:
  "4 \<le> length content \<Longrightarrow>
     io_ReadFull \<lparr>data = content, pos = 0\<rparr> 4
       = Inr (take 4 content, \<lparr>data = content, pos = 4\<rparr>)
     \<and> length (take 4 content) = 4
     \<and> sniff filename None \<lparr>data = content, pos = 0\<rparr>
       = (if take 4 content = ''PAR1'' then Inr (''parquet'', \<lparr>data = content, pos = 0\<rparr>)
          else if strings_Contains (filepath_Ext filename) ''.csv'' \<or> hd content \<noteq> CHR ''P''
          then Inr (''csv'', \<lparr>data = content, pos = 0\<rparr>)
          else Inl (badRequest ''UNSUPPORTED_FILE_TYPE''
                      ''only .csv or .parquet files are allowed''))"
  by (cases content) (simp_all add: sniff_def io_ReadFull_def file_Seek_start_def Let_def)

theorem sniff_classification_witness:
  "sniff ''data.bin'' None \<lparr>data = ''PAR1....PAR1'', pos = 0\<rparr>
     = Inr (''parquet'', \<lparr>data = ''PAR1....PAR1'', pos = 0\<rparr>)
   \<and> sniff ''notes.txt'' None \<lparr>data = ''id,name'', pos = 0\<rparr>
     = Inr (''csv'', \<lparr>data = ''id,name'', pos = 0\<rparr>)
   \<and> sniff ''people.csv'' None \<lparr>data = ''PASS,1,2'', pos = 0\<rparr>
     = Inr (''csv'', \<lparr>data = ''PASS,1,2'', pos = 0\<rparr>)
   \<and> sniff ''notes.txt'' None \<lparr>data = ''PASS,1,2'', pos = 0\<rparr>
     = Inl (badRequest ''UNSUPPORTED_FILE_TYPE'' ''only .csv or .parquet files are allowed'')"
  using sniff_classification [of "''PAR1....PAR1''" "''data.bin''"]
    sniff_classification [of "''id,name''" "''notes.txt''"]
    sniff_classification [of "''PASS,1,2''" "''people.csv''"]
    sniff_classification [of "''PASS,1,2''" "''notes.txt''"]
  by (simp add: filepath_Ext_def)

section \<open>The row loop\<close>

lemma sendToDLQ_heap: "heap (sendToDLQ js dt r n raw e w) = heap w"
  by (simp add: sendToDLQ_def json_Marshal_rejected_def WriteMessages_def wait_def Let_def
      split: option.splits)

lemma sendToDLQ_topics: "topics (sendToDLQ js dt r n raw e w) = topics w"
  by (simp add: sendToDLQ_def json_Marshal_rejected_def WriteMessages_def wait_def Let_def
      split: option.splits)

lemma row_step_heap:
  "heap (row_step js mt dt n r w) =
     (heap w)(js := (heap w js)\<lparr>Totals := count_row r (Totals (heap w js))\<rparr>)"
  by (simp add: row_step_def sendToDLQ_heap modify_job_def wait_def WriteMessages_def
      json_Marshal_row_def count_row_def parsed_def published_def inc_Errors_def inc_Rows_def
      inc_OK_def Let_def split: read_result.splits option.splits)

lemma row_step_topics: "topics (row_step js mt dt n r w) = topics w"
  by (simp add: row_step_def sendToDLQ_topics modify_job_def wait_def WriteMessages_def
      json_Marshal_row_def Let_def split: read_result.splits option.splits)

lemma row_step_logs_published:
  "published r \<Longrightarrow>
     logs (row_step js mt dt n r w) =
       (logs w)(mt := logs w mt @ [\<lparr>Key = JobID (heap w js), Value = RowJSON (row_record r)\<rparr>])"
  by (simp add: row_step_def modify_job_def wait_def WriteMessages_def json_Marshal_row_def
      parsed_def published_def row_record_def inc_Rows_def Let_def split: read_result.splits)

lemma row_loop_heap:
  "heap (row_loop js mt dt n rs w) =
     (heap w)(js := (heap w js)\<lparr>Totals := fold count_row rs (Totals (heap w js))\<rparr>)"
  by (induction rs arbitrary: n w) (simp_all add: row_step_heap)

lemma row_loop_topics: "topics (row_loop js mt dt n rs w) = topics w"
  by (induction rs arbitrary: n w) (simp_all add: row_step_topics)

lemma row_loop_logs_published:
  "\<forall>r \<in> set rs. published r \<Longrightarrow>
     logs (row_loop js mt dt n rs w) =
       (logs w)(mt := logs w mt
                  @ map (\<lambda>r. \<lparr>Key = JobID (heap w js), Value = RowJSON (row_record r)\<rparr>) rs)"
  by (induction rs arbitrary: n w) (simp_all add: row_step_logs_published row_step_heap)

lemma fold_count_row:
  "Rows (fold count_row rs t) = Rows t + int (length (filter parsed rs))"
  "OK (fold count_row rs t) = OK t + int (length (filter published rs))"
  "Errors (fold count_row rs t) = Errors t + int (length (filter (\<lambda>r. \<not> published r) rs))"
  by (induction rs arbitrary: t) (simp_all add: count_row_def published_def)

lemma filter_all: "\<forall>r \<in> set rs. P r \<Longrightarrow> filter P rs = rs"
  by (induction rs) simp_all

lemma filter_none: "\<forall>r \<in> set rs. P r \<Longrightarrow> filter (\<lambda>r. \<not> P r) rs = []"
  by (induction rs) simp_all

section \<open>processJob as a whole\<close>

lemma processJob_begin_heap:
  "heap (processJob_begin js w) =
     (heap w)(js := (heap w js)\<lparr>State := StateRunning, StartedAt := clock w,
                                UpdatedAt := clock w\<rparr>)"
  by (simp add: processJob_begin_def modify_job_def Let_def)

lemma processJob_begin_rest:
  "logs (processJob_begin js w) = logs w" "topics (processJob_begin js w) = topics w"
  "clock (processJob_begin js w) = clock w"
  by (simp_all add: processJob_begin_def modify_job_def Let_def)

lemma processJob_dial_failed:
  assumes "dial_err io = Some e"
  shows "State (heap (processJob js io w) js) = StateFailed"
    and "Totals (heap (processJob js io w) js) = Totals (heap w js)"
    and "UpdatedAt (heap (processJob js io w) js) = clock (processJob js io w)"
    and "logs (processJob js io w) = logs w"
    and "topics (processJob js io w) = topics w"
  using assms
  by (simp_all add: processJob_def processJob_begin_def touch_def modify_job_def wait_def Let_def)

lemma processJob_streamed_job:
  assumes "dial_err io = None"
  shows "State (heap (processJob js io w) js)
           = final_state (Totals (heap (processJob js io w) js))"
    and "Totals (heap (processJob js io w) js)
           = fold count_row (csv_rows io) (Totals (heap w js))"
    and "UpdatedAt (heap (processJob js io w) js) = clock (processJob js io w)"
  using assms
  by (simp_all add: processJob_def processJob_begin_heap processJob_begin_rest touch_def
      processJob_resolve_def modify_job_def wait_def CreateTopics_def row_loop_heap Let_def
      split: option.splits)

lemma processJob_streamed_logs:
  "dial_err io = None \<Longrightarrow> \<forall>r \<in> set (csv_rows io). published r \<Longrightarrow>
     logs (processJob js io w) =
       (logs w)(''batch_'' @ JobID (heap w js) :=
          logs w (''batch_'' @ JobID (heap w js))
          @ map (\<lambda>r. \<lparr>Key = JobID (heap w js), Value = RowJSON (row_record r)\<rparr>) (csv_rows io))"
  by (simp add: processJob_def processJob_begin_heap processJob_begin_rest touch_def
      processJob_resolve_def modify_job_def wait_def CreateTopics_def row_loop_logs_published
      Let_def split: option.splits)

lemmas demo_task_defs =
  processJob_def processJob_begin_def processJob_resolve_def final_state_def touch_def
  modify_job_def wait_def CreateTopics_def topicConfig_def row_step_def sendToDLQ_def
  WriteMessages_def json_Marshal_row_def json_Marshal_rejected_def inc_Errors_def inc_Rows_def
  inc_OK_def demo_io_def good_row_def bad_row_def unpublished_row_def Let_def

text \<open>
  C1. When the dial succeeds the task runs the loop to end-of-input and then sets the
  state from the counters as they are at that moment: PARTIAL_SUCCESS when errors > 0
  and ok > 0, FAILED when errors > 0 and ok = 0, SUCCESS when errors = 0. The counters
  of a job that started at zero are never negative, so the three cases are all there are.
\<close>

theorem processJob_terminal_state:
  assumes "dial_err io = None"
  shows "(0 < Errors (Totals (heap (processJob js io w) js))
            \<and> 0 < OK (Totals (heap (processJob js io w) js))
          \<longrightarrow> State (heap (processJob js io w) js) = StatePartialSuccess)
       \<and> (0 < Errors (Totals (heap (processJob js io w) js))
            \<and> OK (Totals (heap (processJob js io w) js)) = 0
          \<longrightarrow> State (heap (processJob js io w) js) = StateFailed)
       \<and> (Errors (Totals (heap (processJob js io w) js)) = 0
          \<longrightarrow> State (heap (processJob js io w) js) = StateSuccess)
       \<and> (0 \<le> Errors (Totals (heap w js)) \<and> 0 \<le> OK (Totals (heap w js))
          \<longrightarrow> 0 \<le> Errors (Totals (heap (processJob js io w) js))
              \<and> 0 \<le> OK (Totals (heap (processJob js io w) js)))"
  using assms by (simp add: processJob_streamed_job final_state_def fold_count_row)

theorem processJob_terminal_state_witness:
  "dial_err (demo_io None [good_row [''1'', ''ann''], bad_row]) = None
   \<and> State (heap (processJob 0 (demo_io None [good_row [''1'', ''ann''], bad_row]) demo_accepted) 0)
     = StatePartialSuccess
   \<and> State (heap (processJob 0 (demo_io None [bad_row, unpublished_row [''2'', ''bob'']])
                   demo_accepted) 0)
     = StateFailed
   \<and> State (heap (processJob 0 (demo_io None [good_row [''1'', ''ann'']]) demo_accepted) 0)
     = StateSuccess"
  using processJob_terminal_state
      [where io = "demo_io None [good_row [''1'', ''ann''], bad_row]" and js = 0
         and w = demo_accepted]
    processJob_terminal_state
      [where io = "demo_io None [bad_row, unpublished_row [''2'', ''bob'']]" and js = 0
         and w = demo_accepted]
    processJob_terminal_state
      [where io = "demo_io None [good_row [''1'', ''ann'']]" and js = 0 and w = demo_accepted]
  by (simp add: processJob_streamed_job demo_accepted_job demo_io_def count_row_def
      final_state_def good_row_def bad_row_def unpublished_row_def published_def parsed_def)

text \<open>
  C3. A task whose dial succeeds, on an upload of N rows that all parse and are all
  acknowledged by the primary log, started on a job whose counters are zero, ends
  with rows = N, ok = N, errors = 0 and state SUCCESS; the job's dead-letter log is as
  it was before the task, and the primary log has gained the N rows in input order.
\<close>

theorem processJob_all_rows_ok:
  assumes "dial_err io = None"
    and "\<forall>r \<in> set (csv_rows io). published r"
    and "Totals (heap w js) = \<lparr>Rows = 0, OK = 0, Errors = 0\<rparr>"
  shows "Rows (Totals (heap (processJob js io w) js)) = int (length (csv_rows io))
       \<and> OK (Totals (heap (processJob js io w) js)) = int (length (csv_rows io))
       \<and> Errors (Totals (heap (processJob js io w) js)) = 0
       \<and> State (heap (processJob js io w) js) = StateSuccess
       \<and> logs (processJob js io w) (''batch_'' @ JobID (heap w js) @ ''_dlq'')
           = logs w (''batch_'' @ JobID (heap w js) @ ''_dlq'')
       \<and> logs (processJob js io w) (''batch_'' @ JobID (heap w js))
           = logs w (''batch_'' @ JobID (heap w js))
             @ map (\<lambda>r. \<lparr>Key = JobID (heap w js), Value = RowJSON (row_record r)\<rparr>) (csv_rows io)"
proof -
  have all: "filter published (csv_rows io) = csv_rows io"
    using assms(2) by (rule filter_all)
  have none: "filter (\<lambda>r. \<not> published r) (csv_rows io) = []"
    using assms(2) by (rule filter_none)
  have "\<forall>r \<in> set (csv_rows io). parsed r"
    using assms(2) by (simp add: published_def)
  then have parsed: "filter parsed (csv_rows io) = csv_rows io"
    by (rule filter_all)
  show ?thesis
    using assms
    by (simp add: processJob_streamed_job processJob_streamed_logs fold_count_row all none
        parsed final_state_def)
qed

theorem processJob_all_rows_ok_witness:
  "dial_err (demo_io None [good_row [''id'', ''name''], good_row [''1'', ''ann'']]) = None
   \<and> published (good_row [''id'', ''name'']) \<and> published (good_row [''1'', ''ann''])
   \<and> Totals (heap demo_accepted 0) = \<lparr>Rows = 0, OK = 0, Errors = 0\<rparr>
   \<and> Totals (heap (processJob 0 (demo_io None [good_row [''id'', ''name''], good_row [''1'', ''ann'']])
                   demo_accepted) 0)
     = \<lparr>Rows = 2, OK = 2, Errors = 0\<rparr>
   \<and> State (heap (processJob 0 (demo_io None [good_row [''id'', ''name''], good_row [''1'', ''ann'']])
                   demo_accepted) 0)
     = StateSuccess
   \<and> logs (processJob 0 (demo_io None [good_row [''id'', ''name''], good_row [''1'', ''ann'']])
             demo_accepted) ''batch_k3x9q2ab_dlq'' = []
   \<and> logs (processJob 0 (demo_io None [good_row [''id'', ''name''], good_row [''1'', ''ann'']])
             demo_accepted) ''batch_k3x9q2ab''
     = [\<lparr>Key = ''k3x9q2ab'', Value = RowJSON [''id'', ''name'']\<rparr>,
        \<lparr>Key = ''k3x9q2ab'', Value = RowJSON [''1'', ''ann'']\<rparr>]"
  using processJob_all_rows_ok
      [where io = "demo_io None [good_row [''id'', ''name''], good_row [''1'', ''ann'']]"
         and js = 0 and w = demo_accepted]
  by (simp add: demo_accepted_job demo_accepted_broker demo_io_def good_row_def published_def
      parsed_def row_record_def Totals_t.equality)

text \<open>
  C4. When the dial to the broker fails, the task sets the state to FAILED and
  returns: the loop is not entered, the counters are what they were (zero for a job
  as createJob made it), no message is written to any log and no topic is created.
\<close>

theorem processJob_dial_failure:
  assumes "dial_err io = Some e"
    and "Totals (heap w js) = \<lparr>Rows = 0, OK = 0, Errors = 0\<rparr>"
  shows "State (heap (processJob js io w) js) = StateFailed
       \<and> Rows (Totals (heap (processJob js io w) js)) = 0
       \<and> OK (Totals (heap (processJob js io w) js)) = 0
       \<and> Errors (Totals (heap (processJob js io w) js)) = 0
       \<and> logs (processJob js io w) = logs w
       \<and> topics (processJob js io w) = topics w"
  using assms by (simp add: processJob_dial_failed)

theorem processJob_dial_failure_witness:
  "dial_err (demo_io (Some ''connection refused'') [good_row [''1'', ''ann'']])
     = Some ''connection refused''
   \<and> Totals (heap demo_accepted 0) = \<lparr>Rows = 0, OK = 0, Errors = 0\<rparr>
   \<and> State (heap (processJob 0 (demo_io (Some ''connection refused'') [good_row [''1'', ''ann'']])
                  demo_accepted) 0) = StateFailed
   \<and> Totals (heap (processJob 0 (demo_io (Some ''connection refused'') [good_row [''1'', ''ann'']])
                   demo_accepted) 0) = \<lparr>Rows = 0, OK = 0, Errors = 0\<rparr>
   \<and> logs (processJob 0 (demo_io (Some ''connection refused'') [good_row [''1'', ''ann'']])
             demo_accepted) = (\<lambda>t. [])"
  using processJob_dial_failure
      [where io = "demo_io (Some ''connection refused'') [good_row [''1'', ''ann'']]"
         and e = "''connection refused''" and w = demo_accepted and js = 0]
  by (simp add: demo_accepted_job demo_accepted_broker demo_io_def Totals_t.equality)

lemma filter_parsed_split:
  "length (filter parsed rs)
     = length (filter published rs) + length (filter (\<lambda>r. parsed r \<and> \<not> published r) rs)"
  by (induction rs) (simp_all add: published_def)

lemma filter_unpublished_split:
  "length (filter (\<lambda>r. \<not> published r) rs)
     = length (filter (\<lambda>r. \<not> parsed r) rs)
       + length (filter (\<lambda>r. parsed r \<and> \<not> published r) rs)"
  by (induction rs) (simp_all add: published_def)

lemma fold_count_row_from_zero:
  assumes "t = \<lparr>Rows = 0, OK = 0, Errors = 0\<rparr>"
  shows "Rows (fold count_row rs t)
           = OK (fold count_row rs t)
             + int (length (filter (\<lambda>r. parsed r \<and> \<not> published r) rs))"
    and "Errors (fold count_row rs t)
           = int (length (filter (\<lambda>r. \<not> parsed r) rs))
             + int (length (filter (\<lambda>r. parsed r \<and> \<not> published r) rs))"
  using assms
  by (simp_all add: fold_count_row filter_parsed_split filter_unpublished_split)

text \<open>
  C2, as the claim states it, fails: a row that parses but whose publish to the
  primary log fails is counted in rows and in errors, not in ok.
\<close>

theorem rows_equal_ok_counterexample:
  "Totals (heap (processJob 0 (demo_io None [unpublished_row [''2'', ''bob'']]) demo_accepted) 0)
     = \<lparr>Rows = 1, OK = 0, Errors = 1\<rparr>"
  by (simp add: processJob_streamed_job demo_accepted_job demo_io_def count_row_def
      unpublished_row_def published_def parsed_def)

text \<open>
  C2, amended. For a job whose counters start at zero, after every pass of the loop
  (the first \<open>k\<close> rows read, for every \<open>k\<close>) and after the task has ended, rows is ok
  plus the number of rows read so far that parsed and were not published; errors is
  that number plus the number of rows that did not parse. So ok \<le> rows \<le> ok + errors,
  and rows = ok exactly when every parsed row so far was published.
\<close>

theorem rows_ok_gap:
  assumes "Totals (heap w js) = \<lparr>Rows = 0, OK = 0, Errors = 0\<rparr>"
  shows "(let t = Totals (heap (row_loop js mt dt n (take k rs) w) js);
              unpublished = int (length (filter (\<lambda>r. parsed r \<and> \<not> published r) (take k rs)));
              unparsed = int (length (filter (\<lambda>r. \<not> parsed r) (take k rs)))
          in Rows t = OK t + unpublished \<and> Errors t = unparsed + unpublished
             \<and> OK t \<le> Rows t \<and> Rows t \<le> OK t + Errors t
             \<and> (Rows t = OK t \<longleftrightarrow> (\<forall>r \<in> set (take k rs). parsed r \<longrightarrow> published r)))
       \<and> (dial_err io = None \<longrightarrow>
           (let t = Totals (heap (processJob js io w) js);
                unpublished = int (length (filter (\<lambda>r. parsed r \<and> \<not> published r) (csv_rows io)));
                unparsed = int (length (filter (\<lambda>r. \<not> parsed r) (csv_rows io)))
            in Rows t = OK t + unpublished \<and> Errors t = unparsed + unpublished
               \<and> OK t \<le> Rows t \<and> Rows t \<le> OK t + Errors t
               \<and> (Rows t = OK t \<longleftrightarrow> (\<forall>r \<in> set (csv_rows io). parsed r \<longrightarrow> published r))))"
proof -
  have gap: "Rows (fold count_row xs (Totals (heap w js)))
               = OK (fold count_row xs (Totals (heap w js)))
                 + int (length (filter (\<lambda>r. parsed r \<and> \<not> published r) xs))"
    and err: "Errors (fold count_row xs (Totals (heap w js)))
               = int (length (filter (\<lambda>r. \<not> parsed r) xs))
                 + int (length (filter (\<lambda>r. parsed r \<and> \<not> published r) xs))" for xs
    using fold_count_row_from_zero [OF assms] by blast+
  have none: "(filter (\<lambda>r. parsed r \<and> \<not> published r) xs = [])
                \<longleftrightarrow> (\<forall>r \<in> set xs. parsed r \<longrightarrow> published r)" for xs
    by (auto simp add: filter_empty_conv)
  have loop: "Totals (heap (row_loop js mt dt n (take k rs) w) js)
                = fold count_row (take k rs) (Totals (heap w js))"
    by (simp add: row_loop_heap)
  have task: "dial_err io = None \<Longrightarrow>
                Totals (heap (processJob js io w) js)
                  = fold count_row (csv_rows io) (Totals (heap w js))"
    by (simp add: processJob_streamed_job)
  show ?thesis
    unfolding Let_def
    using gap [of "take k rs"] err [of "take k rs"] none [of "take k rs"]
      gap [of "csv_rows io"] err [of "csv_rows io"] none [of "csv_rows io"] loop task
    by auto
qed

theorem rows_ok_gap_witness:
  "Totals (heap demo_accepted 0) = \<lparr>Rows = 0, OK = 0, Errors = 0\<rparr>
   \<and> Totals (heap (row_loop 0 ''batch_k3x9q2ab'' ''batch_k3x9q2ab_dlq'' 0
                     (take 2 [good_row [''1'', ''ann''], unpublished_row [''2'', ''bob''], bad_row])
                     demo_accepted) 0)
       = \<lparr>Rows = 2, OK = 1, Errors = 1\<rparr>
   \<and> Totals (heap (processJob 0
                     (demo_io None [good_row [''1'', ''ann''], unpublished_row [''2'', ''bob''], bad_row])
                     demo_accepted) 0)
       = \<lparr>Rows = 2, OK = 1, Errors = 2\<rparr>"
  using rows_ok_gap
      [where w = demo_accepted and js = 0 and mt = "''batch_k3x9q2ab''"
         and dt = "''batch_k3x9q2ab_dlq''" and n = 0 and k = 2
         and rs = "[good_row [''1'', ''ann''], unpublished_row [''2'', ''bob''], bad_row]"
         and io = "demo_io None [good_row [''1'', ''ann''], unpublished_row [''2'', ''bob''], bad_row]"]
  by (simp add: processJob_streamed_job row_step_heap demo_accepted_job demo_io_def count_row_def
      good_row_def bad_row_def unpublished_row_def published_def parsed_def)

text \<open>
  C9, as the claim states it, fails: a pass of the loop changes a counter and leaves
  \<open>UpdatedAt\<close> at the instant the task began. Below the task begins at 100; the first
  row is read and published by 107 and counted in rows and ok, a malformed row is
  read by 102, counted in errors and sent to the dead-letter log with that timestamp;
  in both cases \<open>UpdatedAt\<close> is still 100.
\<close>

theorem counters_leave_updated_at_counterexample:
  "Totals (heap (processJob_begin 0 demo_accepted) 0) = \<lparr>Rows = 0, OK = 0, Errors = 0\<rparr>
   \<and> UpdatedAt (heap (processJob_begin 0 demo_accepted) 0) = 100
   \<and> Totals (heap (row_step 0 ''batch_k3x9q2ab'' ''batch_k3x9q2ab_dlq'' 1 (good_row [''1'', ''ann''])
                     (processJob_begin 0 demo_accepted)) 0) = \<lparr>Rows = 1, OK = 1, Errors = 0\<rparr>
   \<and> clock (row_step 0 ''batch_k3x9q2ab'' ''batch_k3x9q2ab_dlq'' 1 (good_row [''1'', ''ann''])
              (processJob_begin 0 demo_accepted)) = 107
   \<and> UpdatedAt (heap (row_step 0 ''batch_k3x9q2ab'' ''batch_k3x9q2ab_dlq'' 1 (good_row [''1'', ''ann''])
                        (processJob_begin 0 demo_accepted)) 0) = 100
   \<and> Totals (heap (row_step 0 ''batch_k3x9q2ab'' ''batch_k3x9q2ab_dlq'' 1 bad_row
                     (processJob_begin 0 demo_accepted)) 0) = \<lparr>Rows = 0, OK = 0, Errors = 1\<rparr>
   \<and> logs (row_step 0 ''batch_k3x9q2ab'' ''batch_k3x9q2ab_dlq'' 1 bad_row
             (processJob_begin 0 demo_accepted)) ''batch_k3x9q2ab_dlq''
       = [\<lparr>Key = ''k3x9q2ab'',
           Value = RejectedJSON \<lparr>RowJobID = ''k3x9q2ab'', RowNumber = 1, RawData = ''x,y'',
                                  Error = ''wrong number of fields'', Timestamp = 102\<rparr>\<rparr>]
   \<and> UpdatedAt (heap (row_step 0 ''batch_k3x9q2ab'' ''batch_k3x9q2ab_dlq'' 1 bad_row
                        (processJob_begin 0 demo_accepted)) 0) = 100"
  by (simp add: demo_task_defs demo_accepted_job demo_accepted_broker)

text \<open>
  C9, amended. Every write of a job's state also sets \<open>UpdatedAt\<close> to the time of
  that write: the PENDING record createJob stores, RUNNING at the start of the task,
  FAILED after a failed dial and the final state after end-of-input (the two ways
  processJob ends), and CANCELLED in cancelJob. The counter increments of the loop
  change neither the state nor \<open>UpdatedAt\<close>.
\<close>

theorem state_writes_refresh_updated_at:
  "(fst (fst (createJob r w)) = 202 \<longrightarrow>
      jobs (snd (createJob r w)) (random_id r) = Some (next_addr w)
      \<and> State (heap (snd (createJob r w)) (next_addr w)) = StatePending
      \<and> UpdatedAt (heap (snd (createJob r w)) (next_addr w)) = clock (snd (createJob r w)))
   \<and> State (heap (processJob_begin js w) js) = StateRunning
   \<and> UpdatedAt (heap (processJob_begin js w) js) = clock (processJob_begin js w)
   \<and> UpdatedAt (heap (processJob js io w) js) = clock (processJob js io w)
   \<and> (jobs w jid = Some p \<longrightarrow>
        State (heap (snd (cancelJob jid w)) p) = StateCancelled
        \<and> UpdatedAt (heap (snd (cancelJob jid w)) p) = clock (snd (cancelJob jid w)))
   \<and> State (heap (row_step js mt dt n row w) js) = State (heap w js)
   \<and> UpdatedAt (heap (row_step js mt dt n row w) js) = UpdatedAt (heap w js)"
proof -
  have create: "fst (fst (createJob r w)) = 202 \<longrightarrow>
      jobs (snd (createJob r w)) (random_id r) = Some (next_addr w)
      \<and> State (heap (snd (createJob r w)) (next_addr w)) = StatePending
      \<and> UpdatedAt (heap (snd (createJob r w)) (next_addr w)) = clock (snd (createJob r w))"
    by (simp add: createJob_def sniff_def badRequest_def internalError_def Let_def
        split: option.splits sum.splits prod.splits)
  have task: "UpdatedAt (heap (processJob js io w) js) = clock (processJob js io w)"
    by (cases "dial_err io") (simp_all add: processJob_streamed_job processJob_dial_failed)
  have cancel: "jobs w jid = Some p \<longrightarrow>
        State (heap (snd (cancelJob jid w)) p) = StateCancelled
        \<and> UpdatedAt (heap (snd (cancelJob jid w)) p) = clock (snd (cancelJob jid w))"
    by (simp add: cancelJob_def modify_job_def Let_def)
  show ?thesis
    using create task cancel
    by (simp add: processJob_begin_heap processJob_begin_rest row_step_heap)
qed

theorem state_writes_refresh_updated_at_witness:
  "fst (fst (createJob (demo_upload ''m1'' ''rows.csv'' ''a,b,c'') demo_world)) = 202
   \<and> jobs demo_accepted ''k3x9q2ab'' = Some 0
   \<and> State (heap demo_accepted 0) = StatePending
   \<and> UpdatedAt (heap demo_accepted 0) = clock demo_accepted
   \<and> State (heap (snd (cancelJob ''k3x9q2ab'' demo_accepted)) 0) = StateCancelled
   \<and> UpdatedAt (heap (snd (cancelJob ''k3x9q2ab'' demo_accepted)) 0) = 100"
  using state_writes_refresh_updated_at
      [where r = "demo_upload ''m1'' ''rows.csv'' ''a,b,c''" and w = demo_world]
    state_writes_refresh_updated_at
      [where w = demo_accepted and jid = "''k3x9q2ab''" and p = 0]
  by (simp add: demo_defs cancelJob_def modify_job_def)

section \<open>Cancel requests and what the task sees\<close>

lemma cancelJob_frame:
  "models (snd (cancelJob jid w)) = models w" "jobs (snd (cancelJob jid w)) = jobs w"
  "next_addr (snd (cancelJob jid w)) = next_addr w"
  "goroutines (snd (cancelJob jid w)) = goroutines w"
  "topics (snd (cancelJob jid w)) = topics w" "logs (snd (cancelJob jid w)) = logs w"
  "clock (snd (cancelJob jid w)) = clock w"
  by (simp_all add: cancelJob_def modify_job_def Let_def split: option.splits)

lemma cancelJob_view: "task_view (heap (snd (cancelJob jid w)) q) = task_view (heap w q)"
  by (simp add: cancelJob_def modify_job_def task_view_def Let_def split: option.splits)

lemma cancelJob_State:
  "State (heap (snd (cancelJob jid w)) q)
     = (if jobs w jid = Some q then StateCancelled else State (heap w q))"
  by (simp add: cancelJob_def modify_job_def Let_def split: option.splits)

lemma cancels_frame:
  "models (cancels ids w) = models w" "jobs (cancels ids w) = jobs w"
  "next_addr (cancels ids w) = next_addr w" "goroutines (cancels ids w) = goroutines w"
  "topics (cancels ids w) = topics w" "logs (cancels ids w) = logs w"
  "clock (cancels ids w) = clock w"
  by (induction ids arbitrary: w) (simp_all add: cancels_def cancelJob_frame)

lemma cancels_view: "task_view (heap (cancels ids w) q) = task_view (heap w q)"
  by (induction ids arbitrary: w) (simp_all add: cancels_def cancelJob_view)

lemma cancels_State:
  "State (heap (cancels ids w) q)
     = (if \<exists>jid \<in> set ids. jobs w jid = Some q then StateCancelled else State (heap w q))"
proof (induction ids arbitrary: w)
  case Nil
  show ?case by (simp add: cancels_def)
next
  case (Cons jid ids)
  have step: "cancels (jid # ids) w = cancels ids (snd (cancelJob jid w))"
    by (simp add: cancels_def)
  show ?case
    unfolding step Cons.IH by (auto simp add: cancelJob_frame cancelJob_State)
qed

lemma same_view_refl: "same_view w w"
  by (simp add: same_view_def)

lemma same_view_cancels: "same_view a b \<Longrightarrow> same_view (cancels ids a) b"
  by (simp add: same_view_def cancels_frame cancels_view)

lemma same_view_job: "same_view a b \<Longrightarrow> task_view (heap a q) = task_view (heap b q)"
  by (simp add: same_view_def fun_eq_iff)

lemma same_view_JobID: "same_view a b \<Longrightarrow> JobID (heap a q) = JobID (heap b q)"
  using same_view_job [of a b q] by (simp add: task_view_def)

lemma same_view_wait: "same_view a b \<Longrightarrow> same_view (wait ms a) (wait ms b)"
  by (simp add: same_view_def wait_def)

lemma same_view_begin:
  "same_view a b \<Longrightarrow> same_view (processJob_begin js a) (processJob_begin js b)"
  by (simp add: same_view_def processJob_begin_def modify_job_def task_view_def fun_eq_iff
      Let_def)

lemma same_view_CreateTopics:
  "same_view a b \<Longrightarrow> same_view (CreateTopics mt dt io a) (CreateTopics mt dt io b)"
  by (simp add: same_view_def CreateTopics_def wait_def Let_def split: option.splits)

lemma same_view_row_step:
  "same_view a b \<Longrightarrow> same_view (row_step js mt dt n r a) (row_step js mt dt n r b)"
  by (simp add: same_view_def row_step_def sendToDLQ_def json_Marshal_rejected_def
      json_Marshal_row_def WriteMessages_def modify_job_def wait_def task_view_def
      inc_Errors_def inc_Rows_def inc_OK_def fun_eq_iff Let_def
      split: read_result.splits option.splits)

lemma same_view_row_loop:
  "same_view a b \<Longrightarrow>
     same_view (row_loop_i reqs i js mt dt n rs a) (row_loop js mt dt n rs b)"
proof (induction rs arbitrary: i n a b)
  case Nil
  then show ?case by simp
next
  case (Cons r rs)
  have "same_view (row_step js mt dt (n + 1) r (cancels (reqs i) a))
          (row_step js mt dt (n + 1) r b)"
    using Cons.prems by (intro same_view_row_step same_view_cancels)
  then show ?case by (simp add: Cons.IH)
qed

lemma same_view_resolve:
  "same_view a b \<Longrightarrow>
     same_view (processJob_resolve js start a) (processJob_resolve js start b)
     \<and> State (heap (processJob_resolve js start a) js)
         = State (heap (processJob_resolve js start b) js)"
  by (simp add: same_view_def processJob_resolve_def modify_job_def task_view_def fun_eq_iff
      Let_def)

lemma same_view_fail:
  "same_view a b \<Longrightarrow>
     same_view (modify_job js (\<lambda>j. j\<lparr>State := StateFailed\<rparr>) a)
               (modify_job js (\<lambda>j. j\<lparr>State := StateFailed\<rparr>) b)
     \<and> State (heap (modify_job js (\<lambda>j. j\<lparr>State := StateFailed\<rparr>) a) js)
         = State (heap (modify_job js (\<lambda>j. j\<lparr>State := StateFailed\<rparr>) b) js)"
  by (simp add: same_view_def modify_job_def task_view_def fun_eq_iff)

text \<open>The last two writes of the task, with cancel requests served between them.\<close>

lemma stamp_compare:
  assumes "same_view a b" and "State (heap a js) = State (heap b js)"
  shows "same_view (touch js (cancels ids a)) (touch js b)"
    and "UpdatedAt (heap (touch js (cancels ids a)) js) = UpdatedAt (heap (touch js b) js)"
    and "State (heap (touch js (cancels ids a)) js)
           = (if \<exists>jid \<in> set ids. jobs b jid = Some js then StateCancelled
              else State (heap (touch js b) js))"
proof -
  have v: "same_view (cancels ids a) b"
    using assms(1) by (rule same_view_cancels)
  have jobs: "jobs a = jobs b"
    using assms(1) by (simp add: same_view_def)
  show "same_view (touch js (cancels ids a)) (touch js b)"
    using v by (simp add: same_view_def touch_def modify_job_def task_view_def fun_eq_iff)
  show "UpdatedAt (heap (touch js (cancels ids a)) js) = UpdatedAt (heap (touch js b) js)"
    using v by (simp add: same_view_def touch_def modify_job_def)
  show "State (heap (touch js (cancels ids a)) js)
           = (if \<exists>jid \<in> set ids. jobs b jid = Some js then StateCancelled
              else State (heap (touch js b) js))"
    using assms(2) jobs by (simp add: touch_def modify_job_def cancels_State)
qed

lemma row_step_jobs: "jobs (row_step js mt dt n r w) = jobs w"
  by (simp add: row_step_def sendToDLQ_def json_Marshal_rejected_def json_Marshal_row_def
      WriteMessages_def modify_job_def wait_def Let_def split: read_result.splits option.splits)

lemma row_loop_jobs: "jobs (row_loop js mt dt n rs w) = jobs w"
  by (induction rs arbitrary: n w) (simp_all add: row_step_jobs)

lemma processJob_i_compare:
  "same_view (processJob_i sched js io w) (processJob js io w)
   \<and> UpdatedAt (heap (processJob_i sched js io w) js) = UpdatedAt (heap (processJob js io w) js)
   \<and> State (heap (processJob_i sched js io w) js)
       = (if \<exists>jid \<in> set (at_stamp sched). jobs w jid = Some js then StateCancelled
          else State (heap (processJob js io w) js))"
proof -
  define a0 where "a0 = cancels (at_begin sched) w"
  define a1 where "a1 = processJob_begin js a0"
  define b1 where "b1 = processJob_begin js w"
  define a2 where "a2 = cancels (at_dial sched) (wait (dial_ms io) a1)"
  define b2 where "b2 = wait (dial_ms io) b1"
  define mt where "mt = ''batch_'' @ JobID (heap b1 js)"
  define dt where "dt = ''batch_'' @ JobID (heap b1 js) @ ''_dlq''"
  have v0: "same_view a0 w"
    unfolding a0_def by (intro same_view_cancels same_view_refl)
  have start: "clock a0 = clock w"
    using v0 by (simp add: same_view_def)
  have v1: "same_view a1 b1"
    unfolding a1_def b1_def using v0 by (rule same_view_begin)
  have name: "JobID (heap a1 js) = JobID (heap b1 js)"
    using v1 by (rule same_view_JobID)
  have v2: "same_view a2 b2"
    unfolding a2_def b2_def using v1 by (intro same_view_cancels same_view_wait)
  have jobs2: "jobs b2 = jobs w"
    by (simp add: b2_def b1_def wait_def processJob_begin_def modify_job_def Let_def)
  show ?thesis
  proof (cases "dial_err io")
    case (Some e)
    define xa where "xa = modify_job js (\<lambda>j. j\<lparr>State := StateFailed\<rparr>) a2"
    define xb where "xb = modify_job js (\<lambda>j. j\<lparr>State := StateFailed\<rparr>) b2"
    have lhs: "processJob_i sched js io w = touch js (cancels (at_stamp sched) xa)"
      using Some by (simp add: processJob_i_def xa_def a2_def a1_def a0_def Let_def)
    have rhs: "processJob js io w = touch js xb"
      using Some by (simp add: processJob_def xb_def b2_def b1_def Let_def)
    have x: "same_view xa xb" "State (heap xa js) = State (heap xb js)"
      using same_view_fail [OF v2, of js] by (simp_all add: xa_def xb_def)
    have jobsx: "jobs xb = jobs w"
      using jobs2 by (simp add: xb_def modify_job_def)
    show ?thesis
      unfolding lhs rhs using stamp_compare [OF x, of "at_stamp sched"] jobsx by simp
  next
    case None
    define a5 where "a5 = cancels (at_eof sched) (wait (eof_ms io)
        (row_loop_i (at_row sched) 0 js mt dt 0 (csv_rows io) (CreateTopics mt dt io a2)))"
    define b5 where "b5 = wait (eof_ms io)
        (row_loop js mt dt 0 (csv_rows io) (CreateTopics mt dt io b2))"
    define xa where "xa = processJob_resolve js (clock w) a5"
    define xb where "xb = processJob_resolve js (clock w) b5"
    have lhs: "processJob_i sched js io w = touch js (cancels (at_stamp sched) xa)"
      using None start name
      by (simp add: processJob_i_def xa_def a5_def a2_def a1_def a0_def mt_def dt_def Let_def)
    have rhs: "processJob js io w = touch js xb"
      using None by (simp add: processJob_def xb_def b5_def b2_def b1_def mt_def dt_def Let_def)
    have v5: "same_view a5 b5"
      unfolding a5_def b5_def using v2
      by (intro same_view_cancels same_view_wait same_view_row_loop same_view_CreateTopics)
    have x: "same_view xa xb" "State (heap xa js) = State (heap xb js)"
      using same_view_resolve [OF v5, of js "clock w"] by (simp_all add: xa_def xb_def)
    have jobsx: "jobs xb = jobs w"
      using jobs2
      by (simp add: xb_def b5_def processJob_resolve_def modify_job_def wait_def row_loop_jobs
          CreateTopics_def Let_def split: option.splits)
    show ?thesis
      unfolding lhs rhs using stamp_compare [OF x, of "at_stamp sched"] jobsx by simp
  qed
qed

lemma processJob_no_cancels: "processJob_i no_cancels js io w = processJob js io w"
proof -
  have loop: "row_loop_i (\<lambda>i. []) i js mt dt n rs v = row_loop js mt dt n rs v" for i mt dt n rs v
    by (induction rs arbitrary: i n v) (simp_all add: cancels_def)
  show ?thesis
    by (cases "dial_err io")
      (simp_all add: processJob_i_def processJob_def no_cancels_def cancels_def loop Let_def)
qed

text \<open>
  C8. The task never reads the state, the cancelled flag or \<open>UpdatedAt\<close>. Whatever
  cancel requests are served while it runs, and wherever, the run ends with the same
  counters, timings and timestamps on its job, the same messages in every log, the
  same topics and the same clock as the run nobody interfered with. The state it
  leaves is the same as well, unless a cancel request for this job is served between
  the task's last write of the state and its last write of \<open>UpdatedAt\<close>: then
  that request was the last writer of the state, which reads CANCELLED.
\<close>

theorem cancel_never_reaches_task:
  "Totals (heap (processJob_i sched js io w) js) = Totals (heap (processJob js io w) js)
   \<and> Timings (heap (processJob_i sched js io w) js) = Timings (heap (processJob js io w) js)
   \<and> StartedAt (heap (processJob_i sched js io w) js) = StartedAt (heap (processJob js io w) js)
   \<and> UpdatedAt (heap (processJob_i sched js io w) js) = UpdatedAt (heap (processJob js io w) js)
   \<and> logs (processJob_i sched js io w) = logs (processJob js io w)
   \<and> topics (processJob_i sched js io w) = topics (processJob js io w)
   \<and> clock (processJob_i sched js io w) = clock (processJob js io w)
   \<and> State (heap (processJob_i sched js io w) js)
       = (if \<exists>jid \<in> set (at_stamp sched). jobs w jid = Some js then StateCancelled
          else State (heap (processJob js io w) js))
   \<and> processJob_i no_cancels js io w = processJob js io w"
proof -
  have view: "same_view (processJob_i sched js io w) (processJob js io w)"
    using processJob_i_compare [of sched js io w] by blast
  have "task_view (heap (processJob_i sched js io w) js)
          = task_view (heap (processJob js io w) js)"
    using view by (rule same_view_job)
  then show ?thesis
    using view processJob_i_compare [of sched js io w] processJob_no_cancels [of js io w]
    by (simp add: same_view_def task_view_def)
qed

theorem cancel_never_reaches_task_witness:
  "Totals (heap (processJob_i demo_cancels 0 (demo_io None [good_row [''1'', ''ann''], bad_row])
                   demo_accepted) 0) = \<lparr>Rows = 1, OK = 1, Errors = 1\<rparr>
   \<and> State (heap (processJob_i demo_cancels 0 (demo_io None [good_row [''1'', ''ann''], bad_row])
                   demo_accepted) 0) = StatePartialSuccess
   \<and> State (heap (processJob_i (demo_cancels\<lparr>at_stamp := [''k3x9q2ab'']\<rparr>) 0
                   (demo_io None [good_row [''1'', ''ann''], bad_row]) demo_accepted) 0)
       = StateCancelled"
  using cancel_never_reaches_task
      [where sched = demo_cancels and js = 0 and w = demo_accepted
         and io = "demo_io None [good_row [''1'', ''ann''], bad_row]"]
    cancel_never_reaches_task
      [where sched = "demo_cancels\<lparr>at_stamp := [''k3x9q2ab'']\<rparr>" and js = 0 and w = demo_accepted
         and io = "demo_io None [good_row [''1'', ''ann''], bad_row]"]
  by (simp add: processJob_streamed_job demo_accepted_job demo_accepted_jobs demo_io_def
      demo_cancels_def count_row_def final_state_def good_row_def bad_row_def published_def
      parsed_def)

end
